theory Spec2Isabelle
  imports Complex_Main
begin

section \<open>Shared model types (src/data/models.py)\<close>

text \<open>
  Python's unbounded integers are \<^typ>\<open>int\<close>; cents, prices and quantities are all
  integers. The pydantic field constraints (\<open>ge\<close>, \<open>le\<close>) are checked when an
  object is constructed; they appear below as well-formedness predicates, and as
  explicit failure branches where a constructor is called on a computed value.
  Points in time are seconds, as integers; identifiers and tickers are strings.
\<close>

datatype OrderSide = YES | NO

datatype OrderAction = BUY | SELL

datatype ArbitrageType = MULTI_OUTCOME | TIME_BASED | CORRELATED

record OrderbookLevel =
  level_price :: int
  level_quantity :: int

record Orderbook =
  ob_ticker :: string
  yes_bids :: "OrderbookLevel list"
  no_bids :: "OrderbookLevel list"
  ob_timestamp :: int

record Market =
  market_ticker :: string
  market_event_ticker :: string

record Position =
  position_ticker :: string
  market_exposure :: int
  net_position :: int
  resting_orders_count :: int
  total_traded :: int

record ArbitrageLeg =
  leg_ticker :: string
  leg_side :: OrderSide
  leg_action :: OrderAction
  leg_price :: int
  leg_quantity :: int

record ArbitrageOpportunity =
  opp_id :: string
  opp_type :: ArbitrageType
  event_ticker :: string
  legs :: "ArbitrageLeg list"
  total_cost_cents :: int
  guaranteed_return_cents :: int
  gross_profit_cents :: int
  estimated_fees_cents :: int
  net_profit_cents :: int
  max_quantity :: int
  detected_at :: int
  confidence :: rat

text \<open>\<open>OrderbookLevel\<close>: \<open>price\<close> in 1..99, \<open>quantity \<ge> 0\<close>.\<close>

definition wf_level :: "OrderbookLevel \<Rightarrow> bool" where
  "wf_level l \<longleftrightarrow> 1 \<le> level_price l \<and> level_price l \<le> 99 \<and> 0 \<le> level_quantity l"

definition wf_orderbook :: "Orderbook \<Rightarrow> bool" where
  "wf_orderbook ob \<longleftrightarrow> list_all wf_level (yes_bids ob) \<and> list_all wf_level (no_bids ob)"

text \<open>\<open>ArbitrageLeg\<close>: \<open>price\<close> in 1..99, \<open>quantity \<ge> 1\<close>.\<close>

definition wf_leg :: "ArbitrageLeg \<Rightarrow> bool" where
  "wf_leg l \<longleftrightarrow> 1 \<le> leg_price l \<and> leg_price l \<le> 99 \<and> 1 \<le> leg_quantity l"

text \<open>\<open>Position.contracts\<close>: the absolute number of contracts.\<close>

definition contracts :: "Position \<Rightarrow> int" where
  "contracts p = \<bar>net_position p\<bar>"

text \<open>\<open>ArbitrageOpportunity.is_profitable\<close>.\<close>

definition is_profitable :: "ArbitrageOpportunity \<Rightarrow> bool" where
  "is_profitable opp \<longleftrightarrow> net_profit_cents opp > 0"

section \<open>Profit and fee calculation (src/arbitrage/calculator.py)\<close>

text \<open>
  The fee rate is a \<open>Decimal\<close>; the products formed from it are decimal fractions
  with at most three fractional digits, which \<open>Decimal\<close> represents exactly as long as
  they have no more than 28 significant digits. They are modelled as rationals.
  \<open>quantize(Decimal("1"), rounding=ROUND_UP)\<close> rounds away from zero.
\<close>

definition FEE_RATE :: rat where
  "FEE_RATE = 7 / 1000"

definition PAYOUT_CENTS :: int where
  "PAYOUT_CENTS = 100"

text \<open>\<open>self.fee_rate = fee_rate or self.FEE_RATE\<close>: \<open>None\<close> and a zero rate are falsy.\<close>

definition calculator_fee_rate :: "rat option \<Rightarrow> rat" where
  "calculator_fee_rate fee_rate =
     (case fee_rate of None \<Rightarrow> FEE_RATE | Some r \<Rightarrow> if r = 0 then FEE_RATE else r)"

definition quantize_round_up :: "rat \<Rightarrow> int" where
  "quantize_round_up x = (if 0 \<le> x then \<lceil>x\<rceil> else \<lfloor>x\<rfloor>)"

text \<open>The loop of \<open>calculate_total_fees\<close>, with \<open>max_fee\<close> as the accumulator.\<close>

fun total_fees_loop :: "rat \<Rightarrow> ArbitrageLeg list \<Rightarrow> int \<Rightarrow> int" where
  "total_fees_loop fee_rate [] max_fee = max_fee"
| "total_fees_loop fee_rate (leg # rest) max_fee =
     (if leg_action leg = BUY then
        (let potential_profit = PAYOUT_CENTS - leg_price leg;
             fee = quantize_round_up
                     (of_int potential_profit * fee_rate * of_int (leg_quantity leg))
         in total_fees_loop fee_rate rest (max max_fee fee))
      else total_fees_loop fee_rate rest max_fee)"

definition calculate_total_fees :: "rat \<Rightarrow> ArbitrageLeg list \<Rightarrow> int" where
  "calculate_total_fees fee_rate ls = total_fees_loop fee_rate ls 0"




section \<open>Exposure gate (src/risk/exposure_manager.py, src/execution/position_tracker.py)\<close>

record ExposureLimits =
  max_total_exposure_cents :: int
  max_position_per_market :: int
  max_exposure_per_market_cents :: int
  max_concurrent_trades :: int

definition default_limits :: ExposureLimits where
  "default_limits = \<lparr>max_total_exposure_cents = 50000, max_position_per_market = 100,
     max_exposure_per_market_cents = 10000, max_concurrent_trades = 5\<rparr>"

text \<open>
  The \<open>reason\<close> of a denial is a formatted message in the source; here it is the kind
  of the limit with the numbers the message is built from.
\<close>

datatype denial_reason =
  TotalExposureLimit int int
  | PositionLimit string int int
  | MarketExposureLimit string

record ExposureCheck =
  allowed :: bool
  reason :: "denial_reason option"
  max_allowed_quantity :: int
  current_exposure_cents :: int
  limit_exposure_cents :: int

text \<open>
  The position tracker's \<open>_positions\<close> dictionary, as an association list in insertion
  order (its keys are distinct); \<open>positions.get(ticker)\<close> is \<^const>\<open>map_of\<close>.
\<close>

type_synonym positions = "(string \<times> Position) list"

definition get_total_exposure :: "positions \<Rightarrow> int" where
  "get_total_exposure ps = sum_list (map (\<lambda>(t, pos). market_exposure pos) ps)"

text \<open>\<open>_calculate_max_quantity\<close>; \<open>//\<close> is floor division, as \<open>div\<close> on \<^typ>\<open>int\<close>.\<close>

definition calculate_max_quantity :: "int \<Rightarrow> int \<Rightarrow> int \<Rightarrow> int" where
  "calculate_max_quantity current per_unit_cost limit =
     (if per_unit_cost \<le> 0 then 0
      else (let remaining = limit - current in max 0 (remaining div per_unit_cost)))"

text \<open>
  The per-leg loop of \<open>check_trade\<close>: \<open>Some\<close> is the early return of a denial,
  \<open>None\<close> means that the loop ran to its end.
\<close>

fun check_legs ::
  "ExposureLimits \<Rightarrow> positions \<Rightarrow> int \<Rightarrow> int \<Rightarrow> ArbitrageLeg list \<Rightarrow> ExposureCheck option" where
  "check_legs limits ps current_total quantity [] = None"
| "check_legs limits ps current_total quantity (leg # rest) =
     (let position = map_of ps (leg_ticker leg);
          current_contracts = (case position of Some p \<Rightarrow> contracts p | None \<Rightarrow> 0)
      in if current_contracts + quantity > max_position_per_market limits then
           Some \<lparr>allowed = False,
                 reason = Some (PositionLimit (leg_ticker leg) (current_contracts + quantity)
                                  (max_position_per_market limits)),
                 max_allowed_quantity = max_position_per_market limits - current_contracts,
                 current_exposure_cents = current_total,
                 limit_exposure_cents = max_total_exposure_cents limits\<rparr>
         else
           (let current_market_exposure =
                  (case position of Some p \<Rightarrow> market_exposure p | None \<Rightarrow> 0);
                new_market_exposure = current_market_exposure + leg_price leg * quantity
            in if new_market_exposure > max_exposure_per_market_cents limits then
                 Some \<lparr>allowed = False,
                       reason = Some (MarketExposureLimit (leg_ticker leg)),
                       max_allowed_quantity =
                         calculate_max_quantity current_market_exposure (leg_price leg)
                           (max_exposure_per_market_cents limits),
                       current_exposure_cents = current_total,
                       limit_exposure_cents = max_total_exposure_cents limits\<rparr>
               else check_legs limits ps current_total quantity rest))"

definition check_trade ::
  "ExposureLimits \<Rightarrow> positions \<Rightarrow> ArbitrageOpportunity \<Rightarrow> int \<Rightarrow> ExposureCheck" where
  "check_trade limits ps opportunity quantity =
     (let current_total = get_total_exposure ps;
          new_exposure = total_cost_cents opportunity * quantity;
          projected_total = current_total + new_exposure
      in if projected_total > max_total_exposure_cents limits then
           \<lparr>allowed = False,
            reason = Some (TotalExposureLimit projected_total (max_total_exposure_cents limits)),
            max_allowed_quantity =
              calculate_max_quantity current_total (total_cost_cents opportunity)
                (max_total_exposure_cents limits),
            current_exposure_cents = current_total,
            limit_exposure_cents = max_total_exposure_cents limits\<rparr>
         else
           (case check_legs limits ps current_total quantity (legs opportunity) of
              Some denial \<Rightarrow> denial
            | None \<Rightarrow>
                \<lparr>allowed = True, reason = None, max_allowed_quantity = quantity,
                 current_exposure_cents = current_total,
                 limit_exposure_cents = max_total_exposure_cents limits\<rparr>))"

text \<open>
  The quantities the specification's three inequalities speak about: the contracts and
  the exposure already held in a market, 0 where there is no position.
\<close>

definition position_contracts :: "positions \<Rightarrow> string \<Rightarrow> int" where
  "position_contracts ps t = (case map_of ps t of Some p \<Rightarrow> contracts p | None \<Rightarrow> 0)"

definition position_exposure :: "positions \<Rightarrow> string \<Rightarrow> int" where
  "position_exposure ps t = (case map_of ps t of Some p \<Rightarrow> market_exposure p | None \<Rightarrow> 0)"

text \<open>The conjunction of the three constraints at a quantity, as a computable test.\<close>

definition fits_all_limits ::
  "ExposureLimits \<Rightarrow> positions \<Rightarrow> ArbitrageOpportunity \<Rightarrow> int \<Rightarrow> bool" where
  "fits_all_limits limits ps opp q \<longleftrightarrow>
     get_total_exposure ps + total_cost_cents opp * q \<le> max_total_exposure_cents limits
     \<and> list_all (\<lambda>L. position_contracts ps (leg_ticker L) + q \<le> max_position_per_market limits)
          (legs opp)
     \<and> list_all (\<lambda>L. position_exposure ps (leg_ticker L) + leg_price L * q
                      \<le> max_exposure_per_market_cents limits) (legs opp)"

text \<open>Example data: the three-outcome opportunity of the specification's first scenario.\<close>

definition example_legs :: "ArbitrageLeg list" where
  "example_legs =
     [\<lparr>leg_ticker = ''EVENT-A'', leg_side = YES, leg_action = BUY, leg_price = 40, leg_quantity = 1\<rparr>,
      \<lparr>leg_ticker = ''EVENT-B'', leg_side = YES, leg_action = BUY, leg_price = 30, leg_quantity = 1\<rparr>,
      \<lparr>leg_ticker = ''EVENT-C'', leg_side = YES, leg_action = BUY, leg_price = 25, leg_quantity = 1\<rparr>]"

definition example_opportunity :: ArbitrageOpportunity where
  "example_opportunity =
     \<lparr>opp_id = ''opp-1'', opp_type = MULTI_OUTCOME, event_ticker = ''EVENT'',
      legs = example_legs, total_cost_cents = 95, guaranteed_return_cents = 100,
      gross_profit_cents = 5, estimated_fees_cents = 1, net_profit_cents = 4,
      max_quantity = 50, detected_at = 0, confidence = 1\<rparr>"

definition example_positions :: positions where
  "example_positions =
     [(''EVENT-A'', \<lparr>position_ticker = ''EVENT-A'', market_exposure = 6000, net_position = - 60,
                     resting_orders_count = 0, total_traded = 60\<rparr>)]"

definition tight_limits :: ExposureLimits where
  "tight_limits = \<lparr>max_total_exposure_cents = 9800, max_position_per_market = 100,
     max_exposure_per_market_cents = 7600, max_concurrent_trades = 5\<rparr>"

section \<open>Circuit breaker (src/risk/circuit_breaker.py)\<close>

datatype CircuitBreakerState = CLOSED | OPEN | HALF_OPEN

record CircuitBreakerMetrics =
  daily_loss_cents :: int
  consecutive_losses :: int
  total_exposure_cents :: int
  last_loss_time :: "int option"
  trip_count :: int
  last_trip_time :: "int option"

record CircuitBreakerConfig =
  max_daily_loss_cents :: int
  max_consecutive_losses :: int
  max_exposure_cents :: int
  cooldown_seconds :: int
  half_open_test_limit :: int

text \<open>
  The reason of a trip is a formatted message in the source; here it is the condition
  that fired, with the number the message shows.
\<close>

datatype trip_reason =
  DailyLossLimit int
  | ConsecutiveLosses int
  | ExposureLimit int
  | ManualTrigger string

text \<open>
  The callbacks \<open>on_trip\<close> and \<open>on_reset\<close> are optional and belong to the caller. The
  breaker records whether each is registered and, in order, the calls it makes; an
  exception in a callback is caught and logged by the source and changes nothing else.
\<close>

datatype callback_call = OnTrip trip_reason | OnReset

record CircuitBreaker =
  config :: CircuitBreakerConfig
  has_on_trip :: bool
  has_on_reset :: bool
  cb_state :: CircuitBreakerState
  metrics :: CircuitBreakerMetrics
  cb_trip_reason :: "trip_reason option"
  trip_time :: "int option"
  half_open_trades :: int
  callback_calls :: "callback_call list"

datatype breaker_error =
  CircuitBreakerOpen "trip_reason option" int
  | HalfOpenLimitReached

definition circuit_breaker_init :: "CircuitBreakerConfig \<Rightarrow> bool \<Rightarrow> bool \<Rightarrow> CircuitBreaker" where
  "circuit_breaker_init cfg on_trip on_reset =
     \<lparr>config = cfg, has_on_trip = on_trip, has_on_reset = on_reset, cb_state = CLOSED,
      metrics = \<lparr>daily_loss_cents = 0, consecutive_losses = 0, total_exposure_cents = 0,
                 last_loss_time = None, trip_count = 0, last_trip_time = None\<rparr>,
      cb_trip_reason = None, trip_time = None, half_open_trades = 0, callback_calls = []\<rparr>"

text \<open>\<open>_trip\<close>; \<open>now\<close> is the reading of the clock.\<close>

definition trip :: "int \<Rightarrow> trip_reason \<Rightarrow> CircuitBreaker \<Rightarrow> CircuitBreaker" where
  "trip now why cb =
     (let cb1 = cb\<lparr>cb_state := OPEN, cb_trip_reason := Some why, trip_time := Some now,
                    metrics := (metrics cb)\<lparr>trip_count := trip_count (metrics cb) + 1,
                                             last_trip_time := Some now\<rparr>\<rparr>
      in if has_on_trip cb1
         then cb1\<lparr>callback_calls := callback_calls cb1 @ [OnTrip why]\<rparr>
         else cb1)"

definition check_trip_conditions :: "int \<Rightarrow> CircuitBreaker \<Rightarrow> CircuitBreaker" where
  "check_trip_conditions now cb =
     (if cb_state cb = OPEN then cb
      else
        (let why =
               (if daily_loss_cents (metrics cb) \<ge> max_daily_loss_cents (config cb)
                then Some (DailyLossLimit (daily_loss_cents (metrics cb)))
                else if consecutive_losses (metrics cb) \<ge> max_consecutive_losses (config cb)
                then Some (ConsecutiveLosses (consecutive_losses (metrics cb)))
                else if total_exposure_cents (metrics cb) \<ge> max_exposure_cents (config cb)
                then Some (ExposureLimit (total_exposure_cents (metrics cb)))
                else None)
         in case why of Some r \<Rightarrow> trip now r cb | None \<Rightarrow> cb))"

definition should_transition_to_half_open :: "int \<Rightarrow> CircuitBreaker \<Rightarrow> bool" where
  "should_transition_to_half_open now cb =
     (case trip_time cb of
        None \<Rightarrow> True
      | Some t \<Rightarrow> now - t \<ge> cooldown_seconds (config cb))"

definition transition_to_half_open :: "CircuitBreaker \<Rightarrow> CircuitBreaker" where
  "transition_to_half_open cb = cb\<lparr>cb_state := HALF_OPEN, half_open_trades := 0\<rparr>"

definition transition_to_closed :: "CircuitBreaker \<Rightarrow> CircuitBreaker" where
  "transition_to_closed cb =
     (let cb1 = cb\<lparr>cb_state := CLOSED, cb_trip_reason := None, trip_time := None,
                    half_open_trades := 0\<rparr>
      in if has_on_reset cb1
         then cb1\<lparr>callback_calls := callback_calls cb1 @ [OnReset]\<rparr>
         else cb1)"

definition cooldown_remaining :: "int \<Rightarrow> CircuitBreaker \<Rightarrow> int" where
  "cooldown_remaining now cb =
     (case trip_time cb of
        None \<Rightarrow> 0
      | Some t \<Rightarrow> max 0 (cooldown_seconds (config cb) - (now - t)))"

text \<open>
  \<open>check_and_allow\<close> returns \<open>True\<close> or raises; the state it leaves behind is returned
  in both cases (a breaker that has just become half-open stays so when the call raises).
\<close>

definition check_and_allow :: "int \<Rightarrow> CircuitBreaker \<Rightarrow> (breaker_error + bool) \<times> CircuitBreaker" where
  "check_and_allow now cb =
     (if cb_state cb = OPEN \<and> \<not> should_transition_to_half_open now cb then
        (Inl (CircuitBreakerOpen (cb_trip_reason cb) (cooldown_remaining now cb)), cb)
      else
        (let cb1 = (if cb_state cb = OPEN then transition_to_half_open cb else cb)
         in if cb_state cb1 = HALF_OPEN then
              (if half_open_trades cb1 \<ge> half_open_test_limit (config cb1)
               then (Inl HalfOpenLimitReached, cb1)
               else (Inr True, cb1\<lparr>half_open_trades := half_open_trades cb1 + 1\<rparr>))
            else (Inr True, cb1)))"

definition record_trade_result :: "int \<Rightarrow> int \<Rightarrow> int \<Rightarrow> CircuitBreaker \<Rightarrow> CircuitBreaker" where
  "record_trade_result now profit_cents exposure_cents cb =
     (let cb1 = cb\<lparr>metrics := (metrics cb)\<lparr>total_exposure_cents := exposure_cents\<rparr>\<rparr>
      in if profit_cents < 0 then
           (let m = metrics cb1;
                cb2 = cb1\<lparr>metrics := m\<lparr>daily_loss_cents := daily_loss_cents m + \<bar>profit_cents\<bar>,
                                           consecutive_losses := consecutive_losses m + 1,
                                           last_loss_time := Some now\<rparr>\<rparr>
            in check_trip_conditions now cb2)
         else
           (let cb2 = cb1\<lparr>metrics := (metrics cb1)\<lparr>consecutive_losses := 0\<rparr>\<rparr>
            in if cb_state cb2 = HALF_OPEN then transition_to_closed cb2 else cb2))"

definition record_exposure :: "int \<Rightarrow> int \<Rightarrow> CircuitBreaker \<Rightarrow> CircuitBreaker" where
  "record_exposure now exposure_cents cb =
     check_trip_conditions now
       (cb\<lparr>metrics := (metrics cb)\<lparr>total_exposure_cents := exposure_cents\<rparr>\<rparr>)"

text \<open>
  Example: the configuration of the unit tests; a breaker with both callbacks that trips
  on exposure at time 0 and is let into the half-open state at time 10.
\<close>

definition test_config :: CircuitBreakerConfig where
  "test_config = \<lparr>max_daily_loss_cents = 1000, max_consecutive_losses = 3,
     max_exposure_cents = 5000, cooldown_seconds = 5, half_open_test_limit = 1\<rparr>"

definition half_open_breaker :: CircuitBreaker where
  "half_open_breaker =
     snd (check_and_allow 10 (record_exposure 0 5000 (circuit_breaker_init test_config True True)))"

section \<open>Order-book readers (src/data/models.py, src/data/orderbook_manager.py)\<close>

text \<open>
  The venue publishes bids only; the best YES ask is implied by the best NO bid, and
  the other way round. \<open>max(...)\<close> over a non-empty ladder is \<^const>\<open>Max\<close> over its prices.
\<close>

definition best_yes_bid :: "Orderbook \<Rightarrow> int option" where
  "best_yes_bid ob =
     (if yes_bids ob = [] then None else Some (Max (set (map level_price (yes_bids ob)))))"

definition best_no_bid :: "Orderbook \<Rightarrow> int option" where
  "best_no_bid ob =
     (if no_bids ob = [] then None else Some (Max (set (map level_price (no_bids ob)))))"

definition best_yes_ask :: "Orderbook \<Rightarrow> int option" where
  "best_yes_ask ob =
     (if no_bids ob = [] then None
      else (case best_no_bid ob of None \<Rightarrow> None | Some best_no \<Rightarrow> Some (100 - best_no)))"

definition best_no_ask :: "Orderbook \<Rightarrow> int option" where
  "best_no_ask ob =
     (if yes_bids ob = [] then None
      else (case best_yes_bid ob of None \<Rightarrow> None | Some best_yes \<Rightarrow> Some (100 - best_yes)))"

definition yes_ask_quantity :: "Orderbook \<Rightarrow> int" where
  "yes_ask_quantity ob =
     (if no_bids ob = [] then 0
      else (let best_price = best_no_bid ob
            in sum_list (map level_quantity
                 (filter (\<lambda>level. Some (level_price level) = best_price) (no_bids ob)))))"

text \<open>
  \<open>get_acquisition_cost\<close>: \<open>ask_price * quantity if ask_price else None\<close>; the
  condition is false for \<open>None\<close> and for a price of 0.
\<close>

definition get_acquisition_cost :: "Orderbook \<Rightarrow> OrderSide \<Rightarrow> int \<Rightarrow> int option" where
  "get_acquisition_cost ob side quantity =
     (if side = YES then
        (case best_yes_ask ob of
           None \<Rightarrow> None
         | Some ask_price \<Rightarrow> if ask_price \<noteq> 0 then Some (ask_price * quantity) else None)
      else
        (case best_no_ask ob of
           None \<Rightarrow> None
         | Some ask_price \<Rightarrow> if ask_price \<noteq> 0 then Some (ask_price * quantity) else None))"

text \<open>
  The book store's \<open>_orderbooks\<close> dictionary, as an association list with distinct
  keys. \<open>get_acquisition_costs\<close> fills a dictionary with one entry per ticker asked for;
  it is returned as the list of its assignments, in order.
\<close>

type_synonym orderbooks = "(string \<times> Orderbook) list"

definition get_acquisition_costs ::
  "orderbooks \<Rightarrow> string list \<Rightarrow> OrderSide \<Rightarrow> int \<Rightarrow> (string \<times> int option) list" where
  "get_acquisition_costs obs tickers side quantity =
     map (\<lambda>ticker. (ticker,
            (case map_of obs ticker of
               Some orderbook \<Rightarrow> get_acquisition_cost orderbook side quantity
             | None \<Rightarrow> None)))
       tickers"

definition thin_orderbook :: Orderbook where
  "thin_orderbook = \<lparr>ob_ticker = ''EVENT-A'', yes_bids = [],
     no_bids = [\<lparr>level_price = 60, level_quantity = 5\<rparr>], ob_timestamp = 0\<rparr>"

section \<open>Detector (src/arbitrage/detector.py)\<close>

text \<open>
  The score is computed in floating point in the source (\<open>confidence\<close> is a float); it
  is modelled in exact rational arithmetic, which agrees with it on the values used
  below (small integers and a confidence of 1).
\<close>

definition score :: "ArbitrageOpportunity \<Rightarrow> rat" where
  "score opp = of_int (net_profit_cents opp * 100) + confidence opp * 10
               + of_int (max_quantity opp)"

text \<open>Python's \<open>max(iterable, key=...)\<close> on a non-empty iterable: the first maximal item.\<close>

fun max_by_key :: "('a \<Rightarrow> 'k::linorder) \<Rightarrow> 'a \<Rightarrow> 'a list \<Rightarrow> 'a" where
  "max_by_key key best [] = best"
| "max_by_key key best (x # xs) =
     (if key x > key best then max_by_key key x xs else max_by_key key best xs)"

definition get_best_opportunity :: "ArbitrageOpportunity list \<Rightarrow> ArbitrageOpportunity option" where
  "get_best_opportunity opportunities =
     (if opportunities = [] then None
      else (case filter is_profitable opportunities of
              [] \<Rightarrow> None
            | first # others \<Rightarrow> Some (max_by_key score first others)))"

text \<open>Two candidates: the first earns more per contract, the second has more depth.\<close>

definition candidate_high_profit :: ArbitrageOpportunity where
  "candidate_high_profit =
     \<lparr>opp_id = ''opp-a'', opp_type = MULTI_OUTCOME, event_ticker = ''EVENT'',
      legs = example_legs, total_cost_cents = 97, guaranteed_return_cents = 100,
      gross_profit_cents = 3, estimated_fees_cents = 1, net_profit_cents = 2,
      max_quantity = 1, detected_at = 0, confidence = 1\<rparr>"

definition candidate_deep :: ArbitrageOpportunity where
  "candidate_deep =
     \<lparr>opp_id = ''opp-b'', opp_type = MULTI_OUTCOME, event_ticker = ''EVENT'',
      legs = example_legs, total_cost_cents = 98, guaranteed_return_cents = 100,
      gross_profit_cents = 2, estimated_fees_cents = 1, net_profit_cents = 1,
      max_quantity = 200, detected_at = 0, confidence = 1\<rparr>"

section \<open>Multi-outcome strategy (src/arbitrage/strategies/multioutcome.py)\<close>

text \<open>
  The strategy object: its thresholds and its calculator, which is always built with
  the default fee rate. \<open>detect\<close> either returns (an opportunity or \<open>None\<close>) or raises;
  the exceptions it can raise are pydantic's \<open>ValidationError\<close>, when a computed value
  violates a field constraint of \<open>ArbitrageLeg\<close> or \<open>ArbitrageOpportunity\<close>, and
  \<open>ValueError\<close> from \<open>min\<close> of an empty dictionary.
\<close>

record MultiOutcomeStrategy =
  min_profit_cents :: int
  min_markets :: int
  max_markets :: int
  calculator :: rat

definition GUARANTEED_PAYOUT :: int where
  "GUARANTEED_PAYOUT = 100"

definition multi_outcome_strategy :: "int \<Rightarrow> int \<Rightarrow> int \<Rightarrow> MultiOutcomeStrategy" where
  "multi_outcome_strategy min_profit min_mk max_mk =
     \<lparr>min_profit_cents = min_profit, min_markets = min_mk, max_markets = max_mk,
      calculator = calculator_fee_rate None\<rparr>"

datatype detect_error = ValidationError | ValueError

text \<open>\<open>d[k] = v\<close> on an insertion-ordered dictionary.\<close>

fun dict_set :: "'k \<Rightarrow> 'v \<Rightarrow> ('k \<times> 'v) list \<Rightarrow> ('k \<times> 'v) list" where
  "dict_set k v [] = [(k, v)]"
| "dict_set k v ((k', v') # d) =
     (if k' = k then (k, v) # d else (k', v') # dict_set k v d)"

text \<open>
  The loop of \<open>detect\<close> over the markets, with \<open>legs\<close>, \<open>max_quantities\<close> and
  \<open>total_cost\<close> as accumulators. \<open>Inr None\<close> is an early \<open>return None\<close>. Orderbook
  objects are always truthy, so \<open>not orderbook\<close> means that the ticker has no entry.
\<close>

fun build_legs ::
  "orderbooks \<Rightarrow> Market list \<Rightarrow> ArbitrageLeg list \<Rightarrow> (string \<times> int) list \<Rightarrow> int
   \<Rightarrow> detect_error + (ArbitrageLeg list \<times> (string \<times> int) list \<times> int) option" where
  "build_legs obs [] legs_acc max_quantities total_cost =
     Inr (Some (legs_acc, max_quantities, total_cost))"
| "build_legs obs (market # rest) legs_acc max_quantities total_cost =
     (case map_of obs (market_ticker market) of
        None \<Rightarrow> Inr None
      | Some orderbook \<Rightarrow>
          (case best_yes_ask orderbook of
             None \<Rightarrow> Inr None
           | Some yes_ask \<Rightarrow>
               (let quantity = yes_ask_quantity orderbook
                in if quantity \<le> 0 then Inr None
                   else if yes_ask < 1 \<or> yes_ask > 99 then Inl ValidationError
                   else build_legs obs rest
                          (legs_acc @ [\<lparr>leg_ticker = market_ticker market, leg_side = YES,
                                         leg_action = BUY, leg_price = yes_ask,
                                         leg_quantity = 1\<rparr>])
                          (dict_set (market_ticker market) quantity max_quantities)
                          (total_cost + yes_ask))))"

text \<open>
  \<open>_calculate_confidence\<close>, a float in the source, in exact rational arithmetic;
  \<open>len(orderbooks)\<close> counts all entries of the dictionary passed in.
\<close>

definition calculate_confidence :: "Market list \<Rightarrow> orderbooks \<Rightarrow> rat" where
  "calculate_confidence markets obs =
     (if markets = [] then 0
      else
        (let quantities = List.map_filter
               (\<lambda>market. map_option yes_ask_quantity (map_of obs (market_ticker market))) markets;
             avg_qty = (if quantities \<noteq> []
                        then of_int (sum_list quantities) / of_int (int (length quantities))
                        else 0);
             qty_score = min (avg_qty / 100) 1;
             coverage = of_int (int (length obs)) / of_int (int (length markets))
         in qty_score * (1 / 2) + coverage * (1 / 2)))"

text \<open>\<open>detect\<close>; \<open>uid\<close> is the fresh identifier and \<open>now\<close> the reading of the clock.\<close>

definition detect ::
  "MultiOutcomeStrategy \<Rightarrow> string \<Rightarrow> int \<Rightarrow> Market list \<Rightarrow> orderbooks
   \<Rightarrow> detect_error + ArbitrageOpportunity option" where
  "detect strategy uid now markets obs =
     (if int (length markets) < min_markets strategy then Inr None
      else if int (length markets) > max_markets strategy then Inr None
      else
        (case build_legs obs markets [] [] 0 of
           Inl e \<Rightarrow> Inl e
         | Inr None \<Rightarrow> Inr None
         | Inr (Some (built, max_quantities, total_cost)) \<Rightarrow>
             if total_cost \<ge> GUARANTEED_PAYOUT then Inr None
             else
               (let gross_profit = GUARANTEED_PAYOUT - total_cost;
                    fees = calculate_total_fees (calculator strategy) built;
                    net_profit = gross_profit - fees
                in if net_profit < min_profit_cents strategy then Inr None
                   else if max_quantities = [] then Inl ValueError
                   else
                     (let max_qty = Min (set (map snd max_quantities));
                          ev = (case markets of m # _ \<Rightarrow> market_event_ticker m
                                | [] \<Rightarrow> ''unknown'');
                          conf = calculate_confidence markets obs
                      in if max_qty < 1 \<or> conf < 0 \<or> conf > 1 then Inl ValidationError
                         else Inr (Some
                           \<lparr>opp_id = uid, opp_type = MULTI_OUTCOME, event_ticker = ev,
                            legs = built, total_cost_cents = total_cost,
                            guaranteed_return_cents = GUARANTEED_PAYOUT,
                            gross_profit_cents = gross_profit,
                            estimated_fees_cents = fees, net_profit_cents = net_profit,
                            max_quantity = max_qty, detected_at = now,
                            confidence = conf\<rparr>)))))"




text \<open>The first end-to-end scenario of the specification.\<close>

definition scenario_markets :: "Market list" where
  "scenario_markets =
     [\<lparr>market_ticker = ''EVENT-A'', market_event_ticker = ''EVENT''\<rparr>,
      \<lparr>market_ticker = ''EVENT-B'', market_event_ticker = ''EVENT''\<rparr>,
      \<lparr>market_ticker = ''EVENT-C'', market_event_ticker = ''EVENT''\<rparr>]"

definition scenario_books :: "Orderbook list" where
  "scenario_books =
     [\<lparr>ob_ticker = ''EVENT-A'', yes_bids = [\<lparr>level_price = 38, level_quantity = 10\<rparr>],
       no_bids = [\<lparr>level_price = 60, level_quantity = 100\<rparr>,
                  \<lparr>level_price = 55, level_quantity = 30\<rparr>], ob_timestamp = 0\<rparr>,
      \<lparr>ob_ticker = ''EVENT-B'', yes_bids = [],
       no_bids = [\<lparr>level_price = 70, level_quantity = 50\<rparr>], ob_timestamp = 0\<rparr>,
      \<lparr>ob_ticker = ''EVENT-C'', yes_bids = [],
       no_bids = [\<lparr>level_price = 75, level_quantity = 200\<rparr>], ob_timestamp = 0\<rparr>]"

definition scenario_orderbooks :: orderbooks where
  "scenario_orderbooks = zip [''EVENT-A'', ''EVENT-B'', ''EVENT-C''] scenario_books"

section \<open>Signer (src/core/authenticator.py)\<close>



















text \<open>\<open>f"{timestamp}"\<close>: the decimal digits of an integer.\<close>

fun str_nat :: "nat \<Rightarrow> string" where
  "str_nat n =
     (if n < 10 then [''0123456789'' ! n]
      else str_nat (n div 10) @ [''0123456789'' ! (n mod 10)])"

definition str_int :: "int \<Rightarrow> string" where
  "str_int i = (if i < 0 then CHR ''-'' # str_nat (nat (- i)) else str_nat (nat i))"




section \<open>Order manager and executor (src/execution/order_manager.py, src/execution/executor.py)\<close>

datatype OrderStatus = RESTING | PENDING | CANCELED | EXECUTED | PARTIAL

datatype OrderGroupStatus =
  GROUP_PENDING | SUBMITTING | GROUP_PARTIAL | COMPLETE | FAILED | GROUP_CANCELED

record Order =
  order_id :: string
  order_ticker :: string
  order_status :: OrderStatus
  order_count :: int
  remaining_count :: int

record OrderGroup =
  group_id :: string
  group_opportunity_id :: string
  group_legs :: "ArbitrageLeg list"
  group_orders :: "(string \<times> Order) list"
  group_status :: OrderGroupStatus
  created_at :: int
  completed_at :: "int option"
  group_error :: "string option"

text \<open>
  The order manager's two dictionaries, and the requests it has sent to the venue
  through the client, in order. The venue is a parameter: what it answers to an order
  (an order record, or the text of the failure) and whether a cancellation succeeds.
\<close>

record OrderManager =
  order_groups :: "(string \<times> OrderGroup) list"
  orders :: "(string \<times> Order) list"
  create_order_requests :: "(ArbitrageLeg \<times> string) list"
  cancel_requests :: "string list"

record venue =
  venue_create_order :: "ArbitrageLeg \<Rightarrow> string \<Rightarrow> string + Order"
  venue_cancel_order :: "string \<Rightarrow> bool"

datatype exec_exception = LegValidationError | OrderError string

definition exception_text :: "exec_exception \<Rightarrow> string" where
  "exception_text e =
     (case e of LegValidationError \<Rightarrow> ''validation error for ArbitrageLeg''
      | OrderError msg \<Rightarrow> msg)"

text \<open>
  \<open>create_order_group\<close>: every leg is rebuilt with the quantity
  \<open>min(quantity, opportunity.max_quantity)\<close>; the constructor checks the field
  constraints. \<open>uid\<close> is the fresh identifier of the group.
\<close>

definition create_order_group ::
  "string \<Rightarrow> int \<Rightarrow> ArbitrageOpportunity \<Rightarrow> int \<Rightarrow> OrderManager
   \<Rightarrow> exec_exception + (OrderGroup \<times> OrderManager)" where
  "create_order_group uid now opportunity quantity mgr =
     (let adjusted = map (\<lambda>leg. \<lparr>leg_ticker = leg_ticker leg, leg_side = leg_side leg,
                                    leg_action = leg_action leg, leg_price = leg_price leg,
                                    leg_quantity = min quantity (max_quantity opportunity)\<rparr>)
                         (legs opportunity)
      in if \<not> list_all wf_leg adjusted then Inl LegValidationError
         else
           (let grp = \<lparr>group_id = uid, group_opportunity_id = opp_id opportunity,
                          group_legs = adjusted, group_orders = [],
                          group_status = GROUP_PENDING, created_at = now,
                          completed_at = None, group_error = None\<rparr>
            in Inr (grp, mgr\<lparr>order_groups := dict_set uid grp (order_groups mgr)\<rparr>)))"

definition submit_order ::
  "venue \<Rightarrow> ArbitrageLeg \<Rightarrow> string \<Rightarrow> OrderManager \<Rightarrow> (exec_exception + Order) \<times> OrderManager" where
  "submit_order v leg client_id mgr =
     (let mgr1 = mgr\<lparr>create_order_requests := create_order_requests mgr @ [(leg, client_id)]\<rparr>
      in case venue_create_order v leg client_id of
           Inl msg \<Rightarrow> (Inl (OrderError (''Failed to submit order: '' @ msg)), mgr1)
         | Inr order \<Rightarrow>
             (Inr order, mgr1\<lparr>orders := dict_set (order_id order) order (orders mgr1)\<rparr>))"

text \<open>The loop of \<open>submit_order_group\<close> over the legs; it stops at the first exception.\<close>

fun submit_legs ::
  "venue \<Rightarrow> string \<Rightarrow> ArbitrageLeg list \<Rightarrow> (string \<times> Order) list \<Rightarrow> OrderManager
   \<Rightarrow> exec_exception option \<times> (string \<times> Order) list \<times> OrderManager" where
  "submit_legs v gid [] os mgr = (None, os, mgr)"
| "submit_legs v gid (leg # rest) os mgr =
     (let client_id = gid @ ''-'' @ leg_ticker leg
      in case submit_order v leg client_id mgr of
           (Inl e, mgr1) \<Rightarrow> (Some e, os, mgr1)
         | (Inr order, mgr1) \<Rightarrow>
             submit_legs v gid rest (dict_set (leg_ticker leg) order os) mgr1)"

text \<open>
  \<open>_cancel_group_orders\<close>: every resting order of the group is cancelled at the venue;
  after a successful cancellation the order, which is the same object in the group and in
  the manager's dictionary, has the status CANCELED.
\<close>

fun cancel_group_orders ::
  "venue \<Rightarrow> (string \<times> Order) list \<Rightarrow> OrderManager \<Rightarrow> (string \<times> Order) list \<times> OrderManager" where
  "cancel_group_orders v [] mgr = ([], mgr)"
| "cancel_group_orders v ((ticker, order) # rest) mgr =
     (if order_status order = RESTING then
        (let mgr1 = mgr\<lparr>cancel_requests := cancel_requests mgr @ [order_id order]\<rparr>;
             cancelled = venue_cancel_order v (order_id order)
                    \<and> map_of (orders mgr1) (order_id order) \<noteq> None;
             order1 = (if cancelled then order\<lparr>order_status := CANCELED\<rparr> else order);
             mgr2 = (if cancelled
                     then mgr1\<lparr>orders := dict_set (order_id order) order1 (orders mgr1)\<rparr>
                     else mgr1);
             (rest1, mgr3) = cancel_group_orders v rest mgr2
         in ((ticker, order1) # rest1, mgr3))
      else
        (let (rest1, mgr1) = cancel_group_orders v rest mgr
         in ((ticker, order) # rest1, mgr1)))"

text \<open>
  The group handed to \<open>submit_order_group\<close> is the object registered in
  \<open>_order_groups\<close>; what the method changes in it is seen there.
\<close>

definition registered_update :: "OrderGroup \<Rightarrow> OrderManager \<Rightarrow> OrderManager" where
  "registered_update grp mgr =
     mgr\<lparr>order_groups :=
           map (\<lambda>(gid, g). if gid = group_id grp then (gid, grp) else (gid, g))
               (order_groups mgr)\<rparr>"

definition filled_legs :: "OrderGroup \<Rightarrow> nat" where
  "filled_legs grp =
     length (filter (\<lambda>(ticker, order). order_status order = EXECUTED) (group_orders grp))"

definition submit_order_group ::
  "venue \<Rightarrow> int \<Rightarrow> OrderGroup \<Rightarrow> OrderManager \<Rightarrow> OrderGroup \<times> OrderManager" where
  "submit_order_group v now grp mgr =
     (let group1 = grp\<lparr>group_status := SUBMITTING\<rparr>
      in case submit_legs v (group_id group1) (group_legs group1) (group_orders group1) mgr of
           (None, os, mgr1) \<Rightarrow>
             (let group2 = group1\<lparr>group_orders := os\<rparr>;
                  filled_count = filled_legs group2;
                  group3 =
                    (if filled_count = length (group_legs group2)
                     then group2\<lparr>group_status := COMPLETE, completed_at := Some now\<rparr>
                     else if filled_count > 0 then group2\<lparr>group_status := GROUP_PARTIAL\<rparr>
                     else group2\<lparr>group_status := FAILED,
                                 group_error := Some ''No legs filled''\<rparr>)
              in (group3, registered_update group3 mgr1))
         | (Some e, os, mgr1) \<Rightarrow>
             (let group2 = group1\<lparr>group_orders := os, group_status := FAILED,
                                  group_error := Some (exception_text e)\<rparr>;
                  (os1, mgr2) = cancel_group_orders v os mgr1;
                  group3 = group2\<lparr>group_orders := os1\<rparr>
              in (group3, registered_update group3 mgr2)))"

record ExecutionResult =
  result_opportunity_id :: string
  order_group_id :: "string option"
  success :: bool
  profit_cents :: int
  error :: "string option"
  executed_at :: int

text \<open>
  The executor: its order manager, its history, and the results it has passed to the
  registered callbacks.
\<close>

record Executor =
  order_manager :: OrderManager
  execution_history :: "ExecutionResult list"
  notified :: "ExecutionResult list"

text \<open>
  The quantity determined by \<open>_execute_internal\<close>:
  \<open>qty = quantity or opportunity.max_quantity; qty = min(qty, opportunity.max_quantity)\<close>.
  \<open>None\<close> and 0 are falsy.
\<close>

definition effective_quantity :: "ArbitrageOpportunity \<Rightarrow> int option \<Rightarrow> int" where
  "effective_quantity opportunity quantity =
     (let qty = (case quantity of
                   None \<Rightarrow> max_quantity opportunity
                 | Some q \<Rightarrow> if q = 0 then max_quantity opportunity else q)
      in min qty (max_quantity opportunity))"

definition failed_result :: "ArbitrageOpportunity \<Rightarrow> string option \<Rightarrow> string \<Rightarrow> int \<Rightarrow> ExecutionResult" where
  "failed_result opportunity gid msg now =
     \<lparr>result_opportunity_id = opp_id opportunity, order_group_id = gid, success = False,
      profit_cents = 0, error = Some msg, executed_at = now\<rparr>"

text \<open>
  \<open>_execute_internal\<close>, which \<open>execute\<close> runs under the executor's semaphore
  and whose result it returns. The circuit-breaker block of the source does nothing. The
  verdict of \<open>detector.validate_opportunity\<close> on the current books is the parameter
  \<open>still_valid\<close>. The two early returns leave the history and the callbacks alone.
\<close>

definition execute_internal ::
  "venue \<Rightarrow> string \<Rightarrow> int \<Rightarrow> bool \<Rightarrow> ArbitrageOpportunity \<Rightarrow> int option \<Rightarrow> bool \<Rightarrow> Executor
   \<Rightarrow> ExecutionResult \<times> Executor" where
  "execute_internal v uid now still_valid opportunity quantity validate ex =
     (if validate \<and> \<not> still_valid then
        (failed_result opportunity None ''Opportunity no longer valid'' now, ex)
      else
        (let qty = effective_quantity opportunity quantity
         in if qty \<le> 0 then (failed_result opportunity None ''No quantity available'' now, ex)
            else
              (let (result, mgr) =
                     (case create_order_group uid now opportunity qty (order_manager ex) of
                        Inl e \<Rightarrow>
                          (failed_result opportunity None
                             (''Unexpected error: '' @ exception_text e) now,
                           order_manager ex)
                      | Inr (group0, mgr1) \<Rightarrow>
                          (let (grp, mgr2) = submit_order_group v now group0 mgr1
                           in if group_status grp = COMPLETE then
                                (\<lparr>result_opportunity_id = opp_id opportunity,
                                  order_group_id = Some (group_id grp), success = True,
                                  profit_cents = net_profit_cents opportunity * qty,
                                  error = None, executed_at = now\<rparr>, mgr2)
                              else if group_status grp = GROUP_PARTIAL then
                                (failed_result opportunity (Some (group_id grp))
                                   (''Partial fill: '' @ str_int (int (filled_legs grp)) @ ''/''
                                    @ str_int (int (length (group_legs grp))) @ '' legs'') now,
                                 mgr2)
                              else
                                (failed_result opportunity (Some (group_id grp))
                                   (case group_error grp of
                                      None \<Rightarrow> ''Execution failed''
                                    | Some msg \<Rightarrow> if msg = [] then ''Execution failed'' else msg)
                                   now,
                                 mgr2)))
               in (result, ex\<lparr>order_manager := mgr,
                              execution_history := execution_history ex @ [result],
                              notified := notified ex @ [result]\<rparr>))))"

definition empty_executor :: Executor where
  "empty_executor =
     \<lparr>order_manager = \<lparr>order_groups = [], orders = [], create_order_requests = [],
                        cancel_requests = []\<rparr>,
      execution_history = [], notified = []\<rparr>"

definition filling_venue :: venue where
  "filling_venue =
     \<lparr>venue_create_order = (\<lambda>leg client_id.
         Inr \<lparr>order_id = client_id, order_ticker = leg_ticker leg, order_status = EXECUTED,
              order_count = leg_quantity leg, remaining_count = 0\<rparr>),
      venue_cancel_order = (\<lambda>oid. True)\<rparr>"

section \<open>Fee estimator: results\<close>






section \<open>Exposure gate: results\<close>

lemma check_legs_None_iff:
  "check_legs limits ps ct q ls = None \<longleftrightarrow>
     (\<forall>L \<in> set ls. position_contracts ps (leg_ticker L) + q \<le> max_position_per_market limits
                  \<and> position_exposure ps (leg_ticker L) + leg_price L * q
                      \<le> max_exposure_per_market_cents limits)"
  by (induction ls) (auto simp: Let_def position_contracts_def position_exposure_def)

lemma check_legs_Some_denied:
  "check_legs limits ps ct q ls = Some r \<Longrightarrow> \<not> allowed r"
  by (induction ls) (auto simp: Let_def split: if_splits)

text \<open>
  Claim C4. For every opportunity and quantity \<open>q\<close>, \<open>check_trade\<close> returns
  \<open>allowed = True\<close> if and only if the three inequalities hold: the total exposure after
  the trade is at most \<open>max_total_exposure_cents\<close>, and for every leg the contracts held
  in its market plus \<open>q\<close> are at most \<open>max_position_per_market\<close> and the market's
  exposure plus \<open>price \<times> q\<close> is at most \<open>max_exposure_per_market_cents\<close>. All three
  comparisons are non-strict, so a trade that lands exactly on a limit is approved.
\<close>

theorem check_trade_allowed_iff:
  "allowed (check_trade limits ps opp q) \<longleftrightarrow>
     get_total_exposure ps + total_cost_cents opp * q \<le> max_total_exposure_cents limits
     \<and> (\<forall>L \<in> set (legs opp).
           position_contracts ps (leg_ticker L) + q \<le> max_position_per_market limits)
     \<and> (\<forall>L \<in> set (legs opp).
           position_exposure ps (leg_ticker L) + leg_price L * q
             \<le> max_exposure_per_market_cents limits)"
proof (cases "get_total_exposure ps + total_cost_cents opp * q > max_total_exposure_cents limits")
  case True
  then show ?thesis by (simp add: check_trade_def Let_def)
next
  case False
  show ?thesis
  proof (cases "check_legs limits ps (get_total_exposure ps) q (legs opp)")
    case None
    then show ?thesis
      using False check_legs_None_iff [of limits ps "get_total_exposure ps" q "legs opp"]
      by (simp add: check_trade_def Let_def)
  next
    case (Some r)
    then have "\<not> allowed r" by (rule check_legs_Some_denied)
    moreover have "check_legs limits ps (get_total_exposure ps) q (legs opp) \<noteq> None"
      using Some by simp
    ultimately show ?thesis
      using False Some check_legs_None_iff [of limits ps "get_total_exposure ps" q "legs opp"]
      by (auto simp: check_trade_def Let_def)
  qed
qed

theorem check_trade_allowed_iff_witness:
  "allowed (check_trade tight_limits example_positions example_opportunity 40)
   \<and> get_total_exposure example_positions + total_cost_cents example_opportunity * 40
       = max_total_exposure_cents tight_limits
   \<and> position_contracts example_positions ''EVENT-A'' + 40 = max_position_per_market tight_limits
   \<and> position_exposure example_positions ''EVENT-A'' + 40 * 40
       = max_exposure_per_market_cents tight_limits
   \<and> \<not> allowed (check_trade tight_limits example_positions example_opportunity 41)"
  using check_trade_allowed_iff [of tight_limits example_positions example_opportunity 40]
    check_trade_allowed_iff [of tight_limits example_positions example_opportunity 41]
  by (simp add: tight_limits_def example_positions_def example_opportunity_def example_legs_def
      get_total_exposure_def position_contracts_def position_exposure_def contracts_def)

lemma check_legs_Some_first_failure:
  assumes "check_legs limits ps ct q ls = Some r"
  shows "\<exists>pre L post. ls = pre @ L # post
     \<and> (\<forall>l \<in> set pre. position_contracts ps (leg_ticker l) + q \<le> max_position_per_market limits
                       \<and> position_exposure ps (leg_ticker l) + leg_price l * q
                           \<le> max_exposure_per_market_cents limits)
     \<and> ((position_contracts ps (leg_ticker L) + q > max_position_per_market limits
          \<and> max_allowed_quantity r
              = max_position_per_market limits - position_contracts ps (leg_ticker L))
        \<or> (position_contracts ps (leg_ticker L) + q \<le> max_position_per_market limits
          \<and> position_exposure ps (leg_ticker L) + leg_price L * q
              > max_exposure_per_market_cents limits
          \<and> max_allowed_quantity r
              = calculate_max_quantity (position_exposure ps (leg_ticker L)) (leg_price L)
                  (max_exposure_per_market_cents limits)))"
  using assms
proof (induction ls)
  case Nil
  then show ?case by simp
next
  case (Cons a ls)
  let ?ok = "\<lambda>l. position_contracts ps (leg_ticker l) + q \<le> max_position_per_market limits
                \<and> position_exposure ps (leg_ticker l) + leg_price l * q
                    \<le> max_exposure_per_market_cents limits"
  show ?case
  proof (cases "?ok a")
    case True
    then have "check_legs limits ps ct q ls = Some r"
      using Cons.prems
      by (simp add: Let_def position_contracts_def position_exposure_def)
    from Cons.IH [OF this] obtain pre L post where
      ls: "ls = pre @ L # post" and pre: "\<forall>l \<in> set pre. ?ok l" and
      L: "(position_contracts ps (leg_ticker L) + q > max_position_per_market limits
            \<and> max_allowed_quantity r
                = max_position_per_market limits - position_contracts ps (leg_ticker L))
          \<or> (position_contracts ps (leg_ticker L) + q \<le> max_position_per_market limits
            \<and> position_exposure ps (leg_ticker L) + leg_price L * q
                > max_exposure_per_market_cents limits
            \<and> max_allowed_quantity r
                = calculate_max_quantity (position_exposure ps (leg_ticker L)) (leg_price L)
                    (max_exposure_per_market_cents limits))"
      by blast
    have "a # ls = (a # pre) @ L # post" using ls by simp
    moreover have "\<forall>l \<in> set (a # pre). ?ok l" using True pre by simp
    ultimately show ?thesis using L by blast
  next
    case False
    have "a # ls = [] @ a # ls" by simp
    moreover have
      "(position_contracts ps (leg_ticker a) + q > max_position_per_market limits
         \<and> max_allowed_quantity r
             = max_position_per_market limits - position_contracts ps (leg_ticker a))
       \<or> (position_contracts ps (leg_ticker a) + q \<le> max_position_per_market limits
         \<and> position_exposure ps (leg_ticker a) + leg_price a * q
             > max_exposure_per_market_cents limits
         \<and> max_allowed_quantity r
             = calculate_max_quantity (position_exposure ps (leg_ticker a)) (leg_price a)
                 (max_exposure_per_market_cents limits))"
      using Cons.prems False
      by (auto simp: Let_def position_contracts_def position_exposure_def split: if_splits)
    ultimately show ?thesis by (metis empty_iff empty_set)
  qed
qed

lemma calculate_max_quantity_largest:
  assumes "0 < c" and "cur \<le> bound"
  shows "0 \<le> calculate_max_quantity cur c bound"
    and "cur + c * calculate_max_quantity cur c bound \<le> bound"
    and "cur + c * q' \<le> bound \<Longrightarrow> q' \<le> calculate_max_quantity cur c bound"
proof -
  have d: "0 \<le> (bound - cur) div c"
    using assms by (simp add: pos_imp_zdiv_nonneg_iff)
  then have eq: "calculate_max_quantity cur c bound = (bound - cur) div c"
    using assms(1) by (simp add: calculate_max_quantity_def Let_def)
  show "0 \<le> calculate_max_quantity cur c bound" using d eq by simp
  have "c * ((bound - cur) div c) \<le> bound - cur"
    using assms(1) mult_div_mod_eq [of c "bound - cur"] pos_mod_sign [of c "bound - cur"]
    by linarith
  then show "cur + c * calculate_max_quantity cur c bound \<le> bound" using eq by simp
  assume "cur + c * q' \<le> bound"
  then have "q' * c \<le> bound - cur" by (simp add: mult.commute)
  then have "q' * c div c \<le> (bound - cur) div c"
    using assms(1) by (intro zdiv_mono1)
  then have "q' \<le> (bound - cur) div c"
    using assms(1) by simp
  then show "q' \<le> calculate_max_quantity cur c bound" using eq by simp
qed

text \<open>
  The claim C5 as stated (a denial's \<open>max_allowed_quantity\<close> is the largest quantity that
  satisfies all three constraints) fails: with no positions held and the default limits,
  a request for 1000 contracts of the example opportunity is denied on total exposure
  with \<open>max_allowed_quantity = 526\<close>, a quantity that itself violates the position
  limit of 100; the largest quantity within all three limits is 100.
\<close>

theorem check_trade_max_allowed_counterexample:
  "\<not> allowed (check_trade default_limits [] example_opportunity 1000)
   \<and> max_allowed_quantity (check_trade default_limits [] example_opportunity 1000) = 526
   \<and> \<not> fits_all_limits default_limits [] example_opportunity 526
   \<and> fits_all_limits default_limits [] example_opportunity 100
   \<and> \<not> fits_all_limits default_limits [] example_opportunity 101"
  by (simp add: check_trade_def default_limits_def example_opportunity_def example_legs_def
      get_total_exposure_def calculate_max_quantity_def fits_all_limits_def
      position_contracts_def position_exposure_def Let_def)

text \<open>
  Claim C5, amended. Whenever \<open>check_trade\<close> denies a trade, \<open>max_allowed_quantity\<close> is
  computed from the single constraint that triggered the denial, the first that fails in
  the order of the checks (total exposure, then leg by leg the position limit and the
  per-market exposure): \<open>_calculate_max_quantity\<close> of the total exposure and the
  opportunity's cost, or \<open>max_position_per_market\<close> minus the contracts held in the
  leg's market, or \<open>_calculate_max_quantity\<close> of the market's exposure and the leg's
  price. For a positive unit cost and a limit not yet exceeded,
  \<open>_calculate_max_quantity\<close> is the largest quantity that satisfies that one constraint.
\<close>

theorem check_trade_denied_max_allowed:
  assumes "\<not> allowed (check_trade limits ps opp q)"
  shows "((get_total_exposure ps + total_cost_cents opp * q > max_total_exposure_cents limits
           \<and> max_allowed_quantity (check_trade limits ps opp q)
               = calculate_max_quantity (get_total_exposure ps) (total_cost_cents opp)
                   (max_total_exposure_cents limits))
        \<or> (get_total_exposure ps + total_cost_cents opp * q \<le> max_total_exposure_cents limits
           \<and> (\<exists>pre L post. legs opp = pre @ L # post
                \<and> (\<forall>l \<in> set pre.
                      position_contracts ps (leg_ticker l) + q \<le> max_position_per_market limits
                      \<and> position_exposure ps (leg_ticker l) + leg_price l * q
                          \<le> max_exposure_per_market_cents limits)
                \<and> ((position_contracts ps (leg_ticker L) + q > max_position_per_market limits
                     \<and> max_allowed_quantity (check_trade limits ps opp q)
                         = max_position_per_market limits
                           - position_contracts ps (leg_ticker L))
                   \<or> (position_contracts ps (leg_ticker L) + q \<le> max_position_per_market limits
                     \<and> position_exposure ps (leg_ticker L) + leg_price L * q
                         > max_exposure_per_market_cents limits
                     \<and> max_allowed_quantity (check_trade limits ps opp q)
                         = calculate_max_quantity (position_exposure ps (leg_ticker L))
                             (leg_price L) (max_exposure_per_market_cents limits))))))
      \<and> (\<forall>cur c bound. 0 < c \<and> cur \<le> bound \<longrightarrow>
            0 \<le> calculate_max_quantity cur c bound
            \<and> cur + c * calculate_max_quantity cur c bound \<le> bound
            \<and> (\<forall>q'. cur + c * q' \<le> bound \<longrightarrow> q' \<le> calculate_max_quantity cur c bound))"
proof (intro conjI)
  show "\<forall>cur c bound. 0 < c \<and> cur \<le> bound \<longrightarrow>
            0 \<le> calculate_max_quantity cur c bound
            \<and> cur + c * calculate_max_quantity cur c bound \<le> bound
            \<and> (\<forall>q'. cur + c * q' \<le> bound \<longrightarrow> q' \<le> calculate_max_quantity cur c bound)"
    using calculate_max_quantity_largest by blast
next
  let ?r = "check_trade limits ps opp q"
  show "(get_total_exposure ps + total_cost_cents opp * q > max_total_exposure_cents limits
           \<and> max_allowed_quantity ?r
               = calculate_max_quantity (get_total_exposure ps) (total_cost_cents opp)
                   (max_total_exposure_cents limits))
        \<or> (get_total_exposure ps + total_cost_cents opp * q \<le> max_total_exposure_cents limits
           \<and> (\<exists>pre L post. legs opp = pre @ L # post
                \<and> (\<forall>l \<in> set pre.
                      position_contracts ps (leg_ticker l) + q \<le> max_position_per_market limits
                      \<and> position_exposure ps (leg_ticker l) + leg_price l * q
                          \<le> max_exposure_per_market_cents limits)
                \<and> ((position_contracts ps (leg_ticker L) + q > max_position_per_market limits
                     \<and> max_allowed_quantity ?r
                         = max_position_per_market limits
                           - position_contracts ps (leg_ticker L))
                   \<or> (position_contracts ps (leg_ticker L) + q \<le> max_position_per_market limits
                     \<and> position_exposure ps (leg_ticker L) + leg_price L * q
                         > max_exposure_per_market_cents limits
                     \<and> max_allowed_quantity ?r
                         = calculate_max_quantity (position_exposure ps (leg_ticker L))
                             (leg_price L) (max_exposure_per_market_cents limits)))))"
  proof (cases "get_total_exposure ps + total_cost_cents opp * q
                > max_total_exposure_cents limits")
    case True
    then show ?thesis by (simp add: check_trade_def Let_def)
  next
    case False
    show ?thesis
    proof (cases "check_legs limits ps (get_total_exposure ps) q (legs opp)")
      case None
      then have "allowed ?r" using False by (simp add: check_trade_def Let_def)
      then show ?thesis using assms by simp
    next
      case (Some r)
      then have r: "?r = r" using False by (simp add: check_trade_def Let_def)
      show ?thesis
        using False check_legs_Some_first_failure [OF Some] unfolding r by simp
    qed
  qed
qed

theorem check_trade_denied_max_allowed_witness:
  "\<not> allowed (check_trade default_limits [] example_opportunity 1000)
   \<and> max_allowed_quantity (check_trade default_limits [] example_opportunity 1000)
       = calculate_max_quantity 0 95 50000
   \<and> calculate_max_quantity 0 95 50000 = 526
   \<and> 95 * calculate_max_quantity 0 95 50000 \<le> 50000"
proof -
  have d: "\<not> allowed (check_trade default_limits [] example_opportunity 1000)"
    by (simp add: check_trade_def default_limits_def example_opportunity_def
        get_total_exposure_def Let_def)
  have t: "get_total_exposure [] + total_cost_cents example_opportunity * 1000
           > max_total_exposure_cents default_limits"
    by (simp add: default_limits_def example_opportunity_def get_total_exposure_def)
  have v: "calculate_max_quantity 0 95 50000 = 526"
    by (simp add: calculate_max_quantity_def)
  show ?thesis
    using check_trade_denied_max_allowed [OF d] d t v
    by (simp add: default_limits_def example_opportunity_def get_total_exposure_def)
qed

section \<open>Circuit breaker: results\<close>

lemma half_open_breaker_eq:
  "half_open_breaker =
     \<lparr>config = test_config, has_on_trip = True, has_on_reset = True, cb_state = HALF_OPEN,
      metrics = \<lparr>daily_loss_cents = 0, consecutive_losses = 0, total_exposure_cents = 5000,
                 last_loss_time = None, trip_count = 1, last_trip_time = Some 0\<rparr>,
      cb_trip_reason = Some (ExposureLimit 5000), trip_time = Some 0, half_open_trades = 1,
      callback_calls = [OnTrip (ExposureLimit 5000)]\<rparr>"
  by (simp add: half_open_breaker_def check_and_allow_def record_exposure_def
      circuit_breaker_init_def check_trip_conditions_def trip_def test_config_def
      should_transition_to_half_open_def transition_to_half_open_def Let_def)

text \<open>
  The claim C2 as stated fails where it says that a profit of 0 does not close a half-open
  breaker: the breaker that tripped on exposure and was let into HALF_OPEN is CLOSED
  after a trade with \<open>profit_cents = 0\<close> is recorded, and the reset callback is called.
\<close>

theorem record_zero_profit_closes_counterexample:
  "cb_state half_open_breaker = HALF_OPEN
   \<and> cb_state (record_trade_result 11 0 0 half_open_breaker) = CLOSED
   \<and> callback_calls (record_trade_result 11 0 0 half_open_breaker)
       = callback_calls half_open_breaker @ [OnReset]"
  by (simp add: half_open_breaker_eq record_trade_result_def transition_to_closed_def Let_def)

text \<open>
  Claim C2, amended. Whenever the breaker is HALF_OPEN, \<open>record_trade_result\<close> leaves it
  CLOSED exactly when the recorded \<open>profit_cents\<close> is not negative (zero included); on
  that transition the reset callback, when one is registered, is called once, and
  otherwise no callback is called. In every state, recording \<open>profit_cents \<ge> 0\<close>, so in
  particular a positive profit, sets \<open>consecutive_losses\<close> to 0.
\<close>

theorem record_trade_result_half_open_closes:
  assumes "cb_state cb = HALF_OPEN"
  shows "(cb_state (record_trade_result now p e cb) = CLOSED \<longleftrightarrow> 0 \<le> p)
       \<and> (0 \<le> p \<longrightarrow> callback_calls (record_trade_result now p e cb)
                      = callback_calls cb @ (if has_on_reset cb then [OnReset] else []))
       \<and> (\<forall>cb'. 0 \<le> p \<longrightarrow> consecutive_losses (metrics (record_trade_result now p e cb')) = 0)"
proof (intro conjI allI impI)
  show "cb_state (record_trade_result now p e cb) = CLOSED \<longleftrightarrow> 0 \<le> p"
  proof (cases "p < 0")
    case True
    then have "cb_state (record_trade_result now p e cb) \<in> {HALF_OPEN, OPEN}"
      using assms
      by (simp add: record_trade_result_def check_trip_conditions_def trip_def Let_def)
    then show ?thesis using True by auto
  next
    case False
    then show ?thesis
      using assms by (simp add: record_trade_result_def transition_to_closed_def Let_def)
  qed
next
  assume "0 \<le> p"
  then show "callback_calls (record_trade_result now p e cb)
             = callback_calls cb @ (if has_on_reset cb then [OnReset] else [])"
    using assms by (simp add: record_trade_result_def transition_to_closed_def Let_def)
next
  fix cb'
  assume "0 \<le> p"
  then show "consecutive_losses (metrics (record_trade_result now p e cb')) = 0"
    by (simp add: record_trade_result_def transition_to_closed_def Let_def)
qed

theorem record_trade_result_half_open_closes_witness:
  "cb_state half_open_breaker = HALF_OPEN
   \<and> cb_state (record_trade_result 11 10 0 half_open_breaker) = CLOSED
   \<and> callback_calls (record_trade_result 11 10 0 half_open_breaker)
       = [OnTrip (ExposureLimit 5000), OnReset]
   \<and> consecutive_losses (metrics (record_trade_result 11 10 0 half_open_breaker)) = 0
   \<and> cb_state (record_trade_result 11 (- 10) 0 half_open_breaker) \<noteq> CLOSED"
proof -
  have h: "cb_state half_open_breaker = HALF_OPEN" by (simp add: half_open_breaker_eq)
  show ?thesis
    using record_trade_result_half_open_closes [OF h, of 11 10 0]
      record_trade_result_half_open_closes [OF h, of 11 "- 10" 0] h
    by (simp add: half_open_breaker_eq)
qed

text \<open>
  The claim C3 as stated (every loss recorded in HALF_OPEN re-trips the breaker) fails:
  a loss of 10 cents recorded with exposure 0 on the half-open breaker of the example
  leaves all three metrics under their thresholds, and the breaker stays HALF_OPEN.
\<close>

theorem record_loss_half_open_counterexample:
  "cb_state half_open_breaker = HALF_OPEN
   \<and> cb_state (record_trade_result 11 (- 10) 0 half_open_breaker) = HALF_OPEN
   \<and> daily_loss_cents (metrics (record_trade_result 11 (- 10) 0 half_open_breaker)) = 10
   \<and> consecutive_losses (metrics (record_trade_result 11 (- 10) 0 half_open_breaker)) = 1"
  by (simp add: half_open_breaker_eq record_trade_result_def check_trip_conditions_def
      test_config_def Let_def)

text \<open>
  Claim C3, amended. Whenever the breaker is HALF_OPEN and a loss (\<open>profit_cents < 0\<close>)
  is recorded, it goes to OPEN exactly when, after the update, one of the three trip
  conditions holds: the daily loss has reached \<open>max_daily_loss_cents\<close>, or the
  consecutive losses have reached \<open>max_consecutive_losses\<close>, or the recorded exposure
  has reached \<open>max_exposure_cents\<close>. Otherwise it stays HALF_OPEN.
\<close>

theorem record_loss_half_open_trips_iff:
  assumes "cb_state cb = HALF_OPEN" and "p < 0"
  shows "cb_state (record_trade_result now p e cb) =
           (if daily_loss_cents (metrics cb) + \<bar>p\<bar> \<ge> max_daily_loss_cents (config cb)
               \<or> consecutive_losses (metrics cb) + 1 \<ge> max_consecutive_losses (config cb)
               \<or> e \<ge> max_exposure_cents (config cb)
            then OPEN else HALF_OPEN)"
  using assms
  by (simp add: record_trade_result_def check_trip_conditions_def trip_def Let_def)

theorem record_loss_half_open_trips_iff_witness:
  "cb_state half_open_breaker = HALF_OPEN
   \<and> cb_state (record_trade_result 11 (- 1000) 0 half_open_breaker) = OPEN
   \<and> cb_state (record_trade_result 11 (- 10) 5000 half_open_breaker) = OPEN
   \<and> cb_state (record_trade_result 11 (- 10) 4999 half_open_breaker) = HALF_OPEN"
proof -
  have h: "cb_state half_open_breaker = HALF_OPEN" by (simp add: half_open_breaker_eq)
  show ?thesis
    using record_loss_half_open_trips_iff [OF h, of "- 1000" 11 0]
      record_loss_half_open_trips_iff [OF h, of "- 10" 11 5000]
      record_loss_half_open_trips_iff [OF h, of "- 10" 11 4999] h
    by (simp add: half_open_breaker_eq test_config_def)
qed

section \<open>Detector: results\<close>

lemma max_by_key_in: "max_by_key key b xs \<in> set (b # xs)"
  by (induction xs arbitrary: b) auto

lemma max_by_key_ge: "x \<in> set (b # xs) \<Longrightarrow> key x \<le> key (max_by_key key b xs)"
proof (induction xs arbitrary: b x)
  case Nil
  then show ?case by simp
next
  case (Cons a xs)
  have b: "key b \<le> key (max_by_key key b xs)" using Cons.IH [of b b] by simp
  have a: "key a \<le> key (max_by_key key a xs)" using Cons.IH [of a a] by simp
  show ?case
  proof (cases "key a > key b")
    case True
    then show ?thesis using Cons.prems Cons.IH [of x a] a by auto
  next
    case False
    then show ?thesis using Cons.prems Cons.IH [of x b] b by auto
  qed
qed

text \<open>
  What \<open>get_best_opportunity\<close> computes: nothing when no candidate is profitable, and
  otherwise a profitable candidate whose composite score
  \<open>100 \<times> net_profit + 10 \<times> confidence + max_quantity\<close> is the greatest.
\<close>

lemma get_best_opportunity_None_iff:
  "get_best_opportunity opps = None \<longleftrightarrow> (\<forall>c \<in> set opps. \<not> is_profitable c)"
  by (auto simp: get_best_opportunity_def filter_empty_conv split: list.splits)
     (metis filter_empty_conv list.distinct(1))

lemma get_best_opportunity_max_score:
  assumes "get_best_opportunity opps = Some best"
  shows "best \<in> set opps \<and> is_profitable best
         \<and> (\<forall>c \<in> set opps. is_profitable c \<longrightarrow> score c \<le> score best)"
proof -
  obtain f rest where fr: "filter is_profitable opps = f # rest"
    and best: "best = max_by_key score f rest"
    using assms by (auto simp: get_best_opportunity_def split: if_splits list.splits)
  have "best \<in> set (filter is_profitable opps)"
    using max_by_key_in [of score f rest] fr best by simp
  moreover have "\<forall>c \<in> set (filter is_profitable opps). score c \<le> score best"
    using max_by_key_ge [where key = score and b = f and xs = rest] fr best by simp
  ultimately show ?thesis by auto
qed

text \<open>
  Claim C1 (the best candidate is the greatest in the lexicographic order on
  \<open>(net_profit_cents, confidence, max_quantity)\<close>) evaluated at two profitable
  candidates of equal confidence: one with net profit 2 and depth 1, one with net profit
  1 and depth 200. The lexicographic order, and the ranking the docstring announces
  (net profit first), put the first on top; \<open>get_best_opportunity\<close> returns the second,
  whose score is 310 against 211.
\<close>

theorem get_best_opportunity_prefers_depth:
  "get_best_opportunity [candidate_high_profit, candidate_deep] = Some candidate_deep
   \<and> is_profitable candidate_high_profit \<and> is_profitable candidate_deep
   \<and> net_profit_cents candidate_deep < net_profit_cents candidate_high_profit
   \<and> confidence candidate_deep = confidence candidate_high_profit
   \<and> score candidate_high_profit = 211 \<and> score candidate_deep = 310"
  by (simp add: get_best_opportunity_def is_profitable_def score_def
      candidate_high_profit_def candidate_deep_def)

section \<open>Order-book readers: results\<close>

text \<open>
  What \<open>get_acquisition_cost\<close> computes on a book whose levels satisfy the constraints
  of \<open>OrderbookLevel\<close>: \<open>None\<close> exactly when the opposite ladder is empty, and otherwise
  the best implied ask times the requested quantity, whatever quantity rests there.
\<close>

lemma Max_level_price_bounds:
  assumes "list_all wf_level ls" and "ls \<noteq> []"
  shows "1 \<le> Max (set (map level_price ls)) \<and> Max (set (map level_price ls)) \<le> 99"
proof -
  have "Max (set (map level_price ls)) \<in> set (map level_price ls)"
    using assms(2) by (intro Max_in) simp_all
  then obtain l where "l \<in> set ls" and "Max (set (map level_price ls)) = level_price l"
    by auto
  then show ?thesis using assms(1) by (auto simp: list_all_iff wf_level_def)
qed

lemma get_acquisition_cost_yes:
  assumes "wf_orderbook ob"
  shows "get_acquisition_cost ob YES q =
           (if no_bids ob = [] then None
            else Some ((100 - Max (set (map level_price (no_bids ob)))) * q))"
proof (cases "no_bids ob = []")
  case True
  then show ?thesis by (simp add: get_acquisition_cost_def best_yes_ask_def)
next
  case False
  have "list_all wf_level (no_bids ob)" using assms by (simp add: wf_orderbook_def)
  from Max_level_price_bounds [OF this False]
  have "100 - Max (set (map level_price (no_bids ob))) \<noteq> 0" by linarith
  then show ?thesis
    using False by (simp add: get_acquisition_cost_def best_yes_ask_def best_no_bid_def)
qed

text \<open>
  Claim C8 (the acquisition cost is \<open>None\<close> when the quantity at the best implied ask
  is smaller than the quantity asked for) evaluated at a book with a single NO bid of 5
  contracts at 60: the implied YES ask is 40 with 5 contracts, and the cost of 10 YES
  contracts is reported as 400, not as \<open>None\<close>; so is it through the book store.
\<close>

theorem get_acquisition_cost_ignores_depth:
  "best_yes_ask thin_orderbook = Some 40
   \<and> yes_ask_quantity thin_orderbook = 5
   \<and> get_acquisition_cost thin_orderbook YES 10 = Some 400
   \<and> get_acquisition_costs [(''EVENT-A'', thin_orderbook)] [''EVENT-A''] YES 10
       = [(''EVENT-A'', Some 400)]"
  by (simp add: get_acquisition_costs_def get_acquisition_cost_def best_yes_ask_def
      best_no_bid_def yes_ask_quantity_def thin_orderbook_def)

section \<open>Multi-outcome strategy: results\<close>














text \<open>
  Without the bound on the number of books the result can be an exception: with the
  three books of the scenario and only its first two markets, the coverage factor is
  3/2, the confidence 9/8 exceeds the field's upper bound 1, and constructing the
  opportunity raises \<open>ValidationError\<close>.
\<close>

lemma detect_surplus_books:
  "detect (multi_outcome_strategy 2 2 10) ''opp-1'' 0 (take 2 scenario_markets) scenario_orderbooks
   = Inl ValidationError"
proof -
  have c: "\<lceil>(21::rat) / 50\<rceil> = 1" "\<lceil>(49::rat) / 100\<rceil> = 1"
    by (simp_all add: ceiling_eq_iff)
  show ?thesis
    by (simp add: detect_def multi_outcome_strategy_def scenario_markets_def
        scenario_orderbooks_def scenario_books_def best_yes_ask_def best_no_bid_def
        yes_ask_quantity_def Let_def GUARANTEED_PAYOUT_def calculate_total_fees_def
        calculator_fee_rate_def FEE_RATE_def PAYOUT_CENTS_def quantize_round_up_def c
        calculate_confidence_def List.map_filter_simps)
qed

section \<open>Signer: results\<close>




















section \<open>Executor: results\<close>

lemma dict_set_subset: "set (dict_set k v d) \<subseteq> insert (k, v) (set d)"
  by (induction d) (auto split: if_splits)

lemma submit_order_groups:
  "order_groups (snd (submit_order v leg cid mgr)) = order_groups mgr"
  by (simp add: submit_order_def Let_def split: sum.splits)

lemma submit_legs_groups:
  "order_groups (snd (snd (submit_legs v gid ls os mgr))) = order_groups mgr"
proof (induction ls arbitrary: os mgr)
  case Nil
  show ?case by simp
next
  case (Cons leg ls)
  obtain r mgr1 where s: "submit_order v leg (gid @ ''-'' @ leg_ticker leg) mgr = (r, mgr1)"
    by (cases "submit_order v leg (gid @ ''-'' @ leg_ticker leg) mgr")
  have g: "order_groups mgr1 = order_groups mgr"
    using submit_order_groups [of v leg "gid @ ''-'' @ leg_ticker leg" mgr] unfolding s by simp
  show ?case
  proof (cases r)
    case (Inl e)
    then show ?thesis using s g by (simp add: Let_def)
  next
    case (Inr order)
    then show ?thesis using s g Cons.IH by (simp add: Let_def)
  qed
qed

lemma cancel_group_orders_groups:
  "order_groups (snd (cancel_group_orders v os mgr)) = order_groups mgr"
proof (induction os arbitrary: mgr)
  case Nil
  show ?case by simp
next
  case (Cons a os)
  obtain ticker order where a: "a = (ticker, order)" by (cases a)
  show ?case
    unfolding a by (simp add: Let_def split_def Cons.IH)
qed

lemma registered_update_subset:
  "set (order_groups (registered_update g mgr)) \<subseteq> insert (group_id g, g) (set (order_groups mgr))"
  by (auto simp: registered_update_def split: if_splits)

lemma submit_order_group_result:
  assumes "submit_order_group v now g0 mgr = (g, mgr')"
  shows "group_legs g = group_legs g0" and "group_id g = group_id g0"
    and "set (order_groups mgr') \<subseteq> insert (group_id g, g) (set (order_groups mgr))"
proof -
  obtain e os mgr1 where sl:
    "submit_legs v (group_id g0) (group_legs g0) (group_orders g0) mgr = (e, os, mgr1)"
    by (cases "submit_legs v (group_id g0) (group_legs g0) (group_orders g0) mgr") auto
  have g1: "order_groups mgr1 = order_groups mgr"
    using submit_legs_groups [of v "group_id g0" "group_legs g0" "group_orders g0" mgr]
    unfolding sl by simp
  show "group_legs g = group_legs g0" and "group_id g = group_id g0"
    using assms sl
    by (auto simp: submit_order_group_def Let_def split: option.splits prod.splits if_splits)
  show "set (order_groups mgr') \<subseteq> insert (group_id g, g) (set (order_groups mgr))"
  proof (cases e)
    case None
    then have "mgr' = registered_update g mgr1"
      using assms sl by (auto simp: submit_order_group_def Let_def split: if_splits)
    then show ?thesis using registered_update_subset [of g mgr1] g1 by simp
  next
    case (Some ex)
    obtain os1 mgr2 where c: "cancel_group_orders v os mgr1 = (os1, mgr2)"
      by (cases "cancel_group_orders v os mgr1")
    have g2: "order_groups mgr2 = order_groups mgr"
      using cancel_group_orders_groups [of v os mgr1] g1 unfolding c by simp
    have "mgr' = registered_update g mgr2"
      using assms sl Some c by (auto simp: submit_order_group_def Let_def)
    then show ?thesis using registered_update_subset [of g mgr2] g2 by simp
  qed
qed

lemma effective_quantity_le: "effective_quantity opp quantity \<le> max_quantity opp"
  by (simp add: effective_quantity_def Let_def)

lemma create_order_group_result:
  assumes "create_order_group uid now opp (effective_quantity opp quantity) mgr = Inr (g, mgr')"
  shows "group_id g = uid"
    and "\<forall>l \<in> set (group_legs g). leg_quantity l = effective_quantity opp quantity"
    and "set (order_groups mgr') \<subseteq> insert (uid, g) (set (order_groups mgr))"
proof -
  have m: "min (effective_quantity opp quantity) (max_quantity opp) = effective_quantity opp quantity"
    using effective_quantity_le [of opp quantity] by simp
  show "group_id g = uid"
    using assms by (auto simp: create_order_group_def Let_def split: if_splits)
  show "\<forall>l \<in> set (group_legs g). leg_quantity l = effective_quantity opp quantity"
    using assms m by (auto simp: create_order_group_def Let_def split: if_splits)
  show "set (order_groups mgr') \<subseteq> insert (uid, g) (set (order_groups mgr))"
    using assms dict_set_subset [of uid g "order_groups mgr"]
    by (auto simp: create_order_group_def Let_def split: if_splits)
qed

lemma execute_internal_groups:
  assumes "(gid, g) \<in> set (order_groups (order_manager
             (snd (execute_internal v uid now still_valid opp quantity validate ex))))"
  shows "(gid, g) \<in> set (order_groups (order_manager ex))
         \<or> (\<forall>l \<in> set (group_legs g). leg_quantity l = effective_quantity opp quantity)"
proof (cases "(validate \<and> \<not> still_valid) \<or> effective_quantity opp quantity \<le> 0")
  case True
  then have "snd (execute_internal v uid now still_valid opp quantity validate ex) = ex"
    by (auto simp: execute_internal_def Let_def)
  then show ?thesis using assms by simp
next
  case False
  then have nv: "\<not> (validate \<and> \<not> still_valid)"
    and nq: "\<not> effective_quantity opp quantity \<le> 0"
    by blast+
  show ?thesis
  proof (cases "create_order_group uid now opp (effective_quantity opp quantity) (order_manager ex)")
    case (Inl e)
    then have "order_manager (snd (execute_internal v uid now still_valid opp quantity validate ex))
               = order_manager ex"
      unfolding execute_internal_def Let_def if_not_P [OF nv] if_not_P [OF nq] by simp
    then show ?thesis using assms by simp
  next
    case (Inr r)
    obtain g0 mgr1 where r: "r = (g0, mgr1)" by (cases r)
    obtain g3 mgr2 where s: "submit_order_group v now g0 mgr1 = (g3, mgr2)"
      by (cases "submit_order_group v now g0 mgr1")
    have fin: "order_manager (snd (execute_internal v uid now still_valid opp quantity validate ex))
               = mgr2"
      unfolding execute_internal_def Let_def if_not_P [OF nv] if_not_P [OF nq] Inr r
      by (simp add: s)
    note c = create_order_group_result [OF Inr [unfolded r]]
    note d = submit_order_group_result [OF s]
    have "(gid, g) \<in> insert (group_id g3, g3) (insert (uid, g0) (set (order_groups (order_manager ex))))"
      using assms fin d(3) c(3) by auto
    then consider "g = g3" | "g = g0" | "(gid, g) \<in> set (order_groups (order_manager ex))"
      by auto
    then show ?thesis
    proof cases
      case 1
      then show ?thesis using d(1) c(2) by simp
    next
      case 2
      then show ?thesis using c(2) by simp
    next
      case 3
      then show ?thesis by simp
    qed
  qed
qed

text \<open>
  Claim C10, amended. For every opportunity and requested quantity, every order group
  that \<open>execute\<close> adds to the order manager has the effective quantity on each leg, and
  that is at most \<open>opportunity.max_quantity\<close>; the effective quantity is
  \<open>min(q, max_quantity)\<close>, with \<open>max_quantity\<close> in place of a request of \<open>None\<close> or 0.
  When the effective quantity is not positive (a negative request), \<open>execute\<close> returns
  a failed result and leaves the executor and its order manager untouched: no group is
  created, no order is sent. The error is \<open>No quantity available\<close>, unless validation
  was asked for and rejected the opportunity first; then it is
  \<open>Opportunity no longer valid\<close>.
\<close>

theorem execute_quantity_bounded:
  "(\<forall>(gid, g) \<in> set (order_groups (order_manager
        (snd (execute_internal v uid now still_valid opp quantity validate ex)))).
      (gid, g) \<in> set (order_groups (order_manager ex))
      \<or> (\<forall>l \<in> set (group_legs g). leg_quantity l = effective_quantity opp quantity
                                    \<and> leg_quantity l \<le> max_quantity opp))
   \<and> effective_quantity opp None = max_quantity opp
   \<and> effective_quantity opp (Some 0) = max_quantity opp
   \<and> (\<forall>q. q \<noteq> 0 \<longrightarrow> effective_quantity opp (Some q) = min q (max_quantity opp))
   \<and> (effective_quantity opp quantity \<le> 0 \<longrightarrow>
        \<not> success (fst (execute_internal v uid now still_valid opp quantity validate ex))
        \<and> order_group_id (fst (execute_internal v uid now still_valid opp quantity validate ex))
            = None
        \<and> snd (execute_internal v uid now still_valid opp quantity validate ex) = ex
        \<and> error (fst (execute_internal v uid now still_valid opp quantity validate ex))
            = Some (if validate \<and> \<not> still_valid then ''Opportunity no longer valid''
                    else ''No quantity available''))"
proof (intro conjI)
  show "\<forall>(gid, g) \<in> set (order_groups (order_manager
        (snd (execute_internal v uid now still_valid opp quantity validate ex)))).
      (gid, g) \<in> set (order_groups (order_manager ex))
      \<or> (\<forall>l \<in> set (group_legs g). leg_quantity l = effective_quantity opp quantity
                                    \<and> leg_quantity l \<le> max_quantity opp)"
    using execute_internal_groups [of _ _ v uid now still_valid opp quantity validate ex]
      effective_quantity_le [of opp quantity]
    by fastforce
  show "effective_quantity opp None = max_quantity opp"
    and "effective_quantity opp (Some 0) = max_quantity opp"
    and "\<forall>q. q \<noteq> 0 \<longrightarrow> effective_quantity opp (Some q) = min q (max_quantity opp)"
    by (simp_all add: effective_quantity_def)
  show "effective_quantity opp quantity \<le> 0 \<longrightarrow>
        \<not> success (fst (execute_internal v uid now still_valid opp quantity validate ex))
        \<and> order_group_id (fst (execute_internal v uid now still_valid opp quantity validate ex))
            = None
        \<and> snd (execute_internal v uid now still_valid opp quantity validate ex) = ex
        \<and> error (fst (execute_internal v uid now still_valid opp quantity validate ex))
            = Some (if validate \<and> \<not> still_valid then ''Opportunity no longer valid''
                    else ''No quantity available'')"
    by (simp add: execute_internal_def failed_result_def Let_def)
qed

text \<open>
  The claim C10 as stated fails in the message of the failed result: with validation
  asked for and the opportunity no longer valid, a request for \<open>- 1\<close> contracts is
  turned down by the validation gate, which comes first, with the error
  \<open>Opportunity no longer valid\<close>, not \<open>No quantity available\<close>.
\<close>

theorem execute_negative_quantity_counterexample:
  "effective_quantity example_opportunity (Some (- 1)) < 0
   \<and> \<not> success (fst (execute_internal filling_venue ''g1'' 5 False example_opportunity
                         (Some (- 1)) True empty_executor))
   \<and> error (fst (execute_internal filling_venue ''g1'' 5 False example_opportunity
                    (Some (- 1)) True empty_executor))
       = Some ''Opportunity no longer valid''
   \<and> error (fst (execute_internal filling_venue ''g1'' 5 False example_opportunity
                    (Some (- 1)) True empty_executor))
       \<noteq> Some ''No quantity available''"
  by (simp add: execute_internal_def failed_result_def effective_quantity_def
      example_opportunity_def)

lemma execute_example_groups:
  "map (\<lambda>(gid, g). (gid, map leg_quantity (group_legs g), group_status g))
       (order_groups (order_manager (snd (execute_internal filling_venue ''g1'' 5 True
          example_opportunity (Some 70) True empty_executor))))
   = [(''g1'', [50, 50, 50], COMPLETE)]"
  by (simp add: execute_internal_def effective_quantity_def create_order_group_def
      submit_order_group_def submit_order_def registered_update_def filled_legs_def
      example_opportunity_def example_legs_def empty_executor_def filling_venue_def
      wf_leg_def Let_def)

theorem execute_quantity_bounded_witness:
  "effective_quantity example_opportunity (Some 70) = 50
   \<and> map (\<lambda>(gid, g). (gid, map leg_quantity (group_legs g), group_status g))
       (order_groups (order_manager (snd (execute_internal filling_venue ''g1'' 5 True
          example_opportunity (Some 70) True empty_executor))))
       = [(''g1'', [50, 50, 50], COMPLETE)]
   \<and> effective_quantity example_opportunity (Some (- 1)) = - 1
   \<and> error (fst (execute_internal filling_venue ''g1'' 5 True example_opportunity
                    (Some (- 1)) True empty_executor))
       = Some ''No quantity available''
   \<and> snd (execute_internal filling_venue ''g1'' 5 True example_opportunity
             (Some (- 1)) True empty_executor) = empty_executor"
proof -
  have q: "effective_quantity example_opportunity (Some (- 1)) = - 1"
    and q70: "effective_quantity example_opportunity (Some 70) = 50"
    by (simp_all add: effective_quantity_def example_opportunity_def)
  show ?thesis
    using execute_quantity_bounded [of filling_venue "''g1''" 5 True example_opportunity
        "Some (- 1)" True empty_executor] q q70 execute_example_groups
    by simp
qed

end
